theory Spec2Isabelle
  imports Main "HOL-Library.Sublist"
begin

section \<open>Strings, truthiness and dictionaries of the source language\<close>

text \<open>
  A Python \<open>str\<close> is a sequence of Unicode code points; the literals of \<open>app.py\<close> are
  mostly Korean, so a string is modelled as the list of its code points. ASCII literals
  are written through \<open>ascii\<close>, the others as their code points.
\<close>

type_synonym ustr = "nat list"

definition ascii :: "string \<Rightarrow> ustr" where
  "ascii s = map of_char s"

text \<open>
  \<open>str.strip()\<close> without argument removes leading and trailing white space, which for a
  \<open>str\<close> is the set of code points for which \<open>str.isspace\<close> holds.
\<close>

definition isspace :: "nat \<Rightarrow> bool" where
  "isspace c \<longleftrightarrow>
     (9 \<le> c \<and> c \<le> 13) \<or> (28 \<le> c \<and> c \<le> 32) \<or> c = 133 \<or> c = 160 \<or> c = 5760 \<or>
     (8192 \<le> c \<and> c \<le> 8202) \<or> c = 8232 \<or> c = 8233 \<or> c = 8239 \<or> c = 8287 \<or>
     c = 12288"

definition lstrip :: "ustr \<Rightarrow> ustr" where
  "lstrip s = dropWhile isspace s"

definition rstrip :: "ustr \<Rightarrow> ustr" where
  "rstrip s = rev (dropWhile isspace (rev s))"

definition strip :: "ustr \<Rightarrow> ustr" where
  "strip s = rstrip (lstrip s)"

text \<open>
  Truth value of a \<open>str | None\<close>: \<open>None\<close> and the empty string are false. The
  conditional expression \<open>x if x else d\<close> is \<open>or_else x d\<close>.
\<close>

fun truthy :: "ustr option \<Rightarrow> bool" where
  "truthy None = False"
| "truthy (Some s) = (s \<noteq> [])"

fun or_else :: "ustr option \<Rightarrow> ustr \<Rightarrow> ustr" where
  "or_else None d = d"
| "or_else (Some r) d = (if r \<noteq> [] then r else d)"

text \<open>
  The records of the program are \<open>dict\<close>s with string keys and string values, kept as
  association lists in insertion order. \<open>d[k]\<close> raises \<open>KeyError\<close> on a missing key,
  \<open>d.get(k, default)\<close> does not.
\<close>

datatype error = AttributeError string | KeyError string

type_synonym pydict = "(string \<times> ustr) list"

definition getitem :: "pydict \<Rightarrow> string \<Rightarrow> error + ustr" where
  "getitem d k = (case map_of d k of None \<Rightarrow> Inl (KeyError k) | Some v \<Rightarrow> Inr v)"

definition dict_get :: "pydict \<Rightarrow> string \<Rightarrow> ustr \<Rightarrow> ustr" where
  "dict_get d k dflt = (case map_of d k of None \<Rightarrow> dflt | Some v \<Rightarrow> v)"

section \<open>Literals of app.py\<close>

definition REFERENCE_MATERIALS :: "ustr list" where
  "REFERENCE_MATERIALS = [ascii ''Serway'', ascii ''Halliday'', ascii ''Mechanics'']"

text \<open>The marker of \<open>_fake_answer\<close> for "no reference selected" (line 35).\<close>

definition NO_REF_SELECTED :: ustr where
  "NO_REF_SELECTED = [49440, 53469, 46108, 32, 44368, 51116, 32, 50630, 51020]"

text \<open>The two labels and the closing line of the answer template (lines 37 to 39).\<close>

definition QUESTION_LABEL :: ustr where
  "QUESTION_LABEL = [51656, 47928, 32, 50836, 50557, 58, 32]"

definition REFERENCE_LABEL :: ustr where
  "REFERENCE_LABEL = [52280, 44256, 54620, 32, 44368, 51116, 58, 32]"

definition PLACEHOLDER_SUFFIX :: ustr where
  "PLACEHOLDER_SUFFIX =
     [8594, 32, 49892, 51228, 32, 47784, 45944, 32, 50672, 46041, 32, 49884, 32, 50668,
      44592, 50640, 32, 44540, 44144, 32, 44592, 48152, 32, 45813, 48320, 51012, 32,
      49373, 49457, 54616, 49464, 50836, 46]"

text \<open>Sub-headers of the three panels (lines 45, 68 and 104).\<close>

definition CHAT_SUBHEADER :: ustr where
  "CHAT_SUBHEADER =
     [49688, 51456, 32, 47582, 52644, 54805, 32, 53916, 53552, 50640, 44172, 32, 51656,
      47928, 54616, 44592]"

definition IDEA_SUBHEADER :: ustr where
  "IDEA_SUBHEADER =
     [52285, 51032, 183, 48708, 54032, 32, 50500, 51060, 46356, 50612, 32, 51228, 52636]"

definition FEEDBACK_SUBHEADER :: ustr where
  "FEEDBACK_SUBHEADER =
     [44060, 48156, 51088, 50640, 44172, 32, 51032, 44204, 32, 48372, 45236, 44592]"

text \<open>The warning shared by the idea and the feedback panel (lines 72 and 108).\<close>

definition EMPTY_WARNING :: ustr where
  "EMPTY_WARNING = [45236, 50857, 51012, 32, 51077, 47141, 54644, 32, 51452, 49464, 50836, 46]"

text \<open>The marker stored in an idea when no reference is selected (lines 77 and 86).\<close>

definition NO_REF :: ustr where
  "NO_REF = [52280, 44256, 32, 44368, 51116, 32, 50630, 51020]"

text \<open>Confirmations (lines 81 and 116) and list headings (lines 84 and 119).\<close>

definition IDEA_SAVED :: ustr where
  "IDEA_SAVED =
     [50500, 51060, 46356, 50612, 44032, 32, 51200, 51109, 46104, 50632, 49845, 45768,
      45796, 46]"

definition FEEDBACK_SENT :: ustr where
  "FEEDBACK_SENT =
     [51032, 44204, 51060, 32, 51204, 49569, 46104, 50632, 49845, 45768, 45796, 46]"

definition IDEA_HEADING :: ustr where
  "IDEA_HEADING = [35, 35, 35, 35, 32, 51228, 52636, 46108, 32, 50500, 51060, 46356, 50612]"

definition FEEDBACK_HEADING :: ustr where
  "FEEDBACK_HEADING = [35, 35, 35, 35, 32, 48372, 45240, 32, 51032, 44204]"

text \<open>The second line of an idea's list entry, up to the reference (lines 88 and 89).\<close>

definition REF_LINE :: ustr where
  "REF_LINE = [32, 32, 10, 32, 32, 52280, 44256, 58, 32]"

text \<open>The HTML divider that opens the feedback panel (lines 96 to 103).\<close>

definition DIVIDER_HTML :: ustr where
  "DIVIDER_HTML =
     [10, 32, 32, 32, 32, 60, 100, 105, 118, 32, 115, 116, 121, 108, 101, 61, 34, 10, 32,
      32, 32, 32, 32, 32, 32, 32, 104, 101, 105, 103, 104, 116, 58, 32, 52, 48, 112, 120,
      59, 10, 32, 32, 32, 32, 32, 32, 32, 32, 98, 97, 99, 107, 103, 114, 111, 117, 110,
      100, 45, 99, 111, 108, 111, 114, 58, 32, 35, 50, 50, 99, 53, 53, 101, 59, 10, 32,
      32, 32, 32, 32, 32, 32, 32, 98, 111, 114, 100, 101, 114, 45, 114, 97, 100, 105,
      117, 115, 58, 32, 56, 112, 120, 59, 10, 32, 32, 32, 32, 32, 32, 32, 32, 109, 97,
      114, 103, 105, 110, 58, 32, 49, 46, 53, 114, 101, 109, 32, 48, 32, 49, 46, 56, 114,
      101, 109, 32, 48, 59, 10, 32, 32, 32, 32, 34, 62, 60, 47, 100, 105, 118, 62, 10,
      32, 32, 32, 32]"

section \<open>Session state, clock and user interface\<close>

text \<open>
  \<open>st.session_state\<close> holds the three lists under keys that may be absent; reading an
  absent key as an attribute raises \<open>AttributeError\<close>.
\<close>

record session_state =
  chat_history :: "pydict list option"
  ideas :: "pydict list option"
  feedback :: "pydict list option"

definition empty_session :: session_state where
  "empty_session = \<lparr>chat_history = None, ideas = None, feedback = None\<rparr>"

text \<open>
  \<open>datetime.utcnow()\<close> reads the clock, an input of the model;
  \<open>isoformat(timespec="seconds")\<close> prints the fields down to the second, zero padded,
  and leaves the microseconds out.
\<close>

record datetime =
  year :: nat
  month :: nat
  day :: nat
  hour :: nat
  minute :: nat
  second :: nat
  microsecond :: nat

fun digits :: "nat \<Rightarrow> ustr" where
  "digits n = (if n < 10 then [48 + n] else digits (n div 10) @ [48 + n mod 10])"

declare digits.simps [simp del]

definition zfill :: "nat \<Rightarrow> ustr \<Rightarrow> ustr" where
  "zfill w ds = replicate (w - length ds) 48 @ ds"

definition isoformat_seconds :: "datetime \<Rightarrow> ustr" where
  "isoformat_seconds dt =
     zfill 4 (digits (year dt)) @ ascii ''-'' @ zfill 2 (digits (month dt)) @ ascii ''-'' @
     zfill 2 (digits (day dt)) @ ascii ''T'' @ zfill 2 (digits (hour dt)) @ ascii '':'' @
     zfill 2 (digits (minute dt)) @ ascii '':'' @ zfill 2 (digits (second dt))"

text \<open>
  What a panel shows is the list of its output calls, in order: \<open>st.subheader\<close>,
  \<open>st.markdown\<close> (plain, or with \<open>unsafe_allow_html\<close>), \<open>st.warning\<close>,
  \<open>st.success\<close>, and the \<open>st.chat_message\<close> container with what is written in it.
\<close>

datatype ui =
    Subheader ustr
  | Markdown ustr
  | Html ustr
  | Warning ustr
  | Success ustr
  | ChatMessage ustr "ui list"

text \<open>
  A panel returns how it ended, what it had shown by then, and the session state as it
  had mutated it by then: an exception keeps both.
\<close>

datatype outcome = Done | Raised error

type_synonym run = "outcome \<times> ui list \<times> session_state"

definition then_run :: "run \<Rightarrow> (session_state \<Rightarrow> run) \<Rightarrow> run" where
  "then_run r f =
     (case r of
        (Raised e, out, s) \<Rightarrow> (Raised e, out, s)
      | (Done, out, s) \<Rightarrow> (case f s of (oc, out', s') \<Rightarrow> (oc, out @ out', s')))"

section \<open>The functions of app.py\<close>

text \<open>\<open>_init_state\<close> (lines 23 to 30).\<close>

definition init_state :: "session_state \<Rightarrow> session_state" where
  "init_state s =
     (let s1 = (if chat_history s = None then s\<lparr>chat_history := Some []\<rparr> else s);
          s2 = (if ideas s1 = None then s1\<lparr>ideas := Some []\<rparr> else s1)
      in if feedback s2 = None then s2\<lparr>feedback := Some []\<rparr> else s2)"

text \<open>\<open>_fake_answer\<close> (lines 33 to 40).\<close>

definition fake_answer :: "ustr \<Rightarrow> ustr option \<Rightarrow> ustr" where
  "fake_answer question ref =
     (let ref_text = or_else ref NO_REF_SELECTED
      in QUESTION_LABEL @ question @ [10, 10] @
         REFERENCE_LABEL @ ref_text @ [10] @
         PLACEHOLDER_SUFFIX)"

text \<open>
  \<open>_render_chat\<close> (lines 43 to 63). \<open>prompt\<close> is what \<open>st.chat_input\<close> returned:
  \<open>None\<close> when nothing was submitted in this run, the submitted string otherwise.
\<close>

fun render_history :: "pydict list \<Rightarrow> outcome \<times> ui list" where
  "render_history [] = (Done, [])"
| "render_history (msg # rest) =
     (case getitem msg ''role'' of
        Inl e \<Rightarrow> (Raised e, [])
      | Inr r \<Rightarrow>
         (case getitem msg ''content'' of
            Inl e \<Rightarrow> (Raised e, [ChatMessage r []])
          | Inr c \<Rightarrow>
             (case render_history rest of
                (oc, out) \<Rightarrow> (oc, ChatMessage r [Markdown c] # out))))"

definition render_chat :: "ustr option \<Rightarrow> ustr option \<Rightarrow> session_state \<Rightarrow> run" where
  "render_chat selected_ref prompt s =
     (case chat_history s of
        None \<Rightarrow> (Raised (AttributeError ''chat_history''), [Subheader CHAT_SUBHEADER], s)
      | Some h \<Rightarrow>
         (case render_history h of
            (Raised e, out) \<Rightarrow> (Raised e, Subheader CHAT_SUBHEADER # out, s)
          | (Done, out) \<Rightarrow>
             (case prompt of
                None \<Rightarrow> (Done, Subheader CHAT_SUBHEADER # out, s)
              | Some p \<Rightarrow>
                 if p \<noteq> [] then
                   (let answer = fake_answer p selected_ref
                    in (Done,
                        Subheader CHAT_SUBHEADER # out @
                          [ChatMessage (ascii ''user'') [Markdown p],
                           ChatMessage (ascii ''assistant'') [Markdown answer]],
                        s\<lparr>chat_history := Some (h @
                          [[(''role'', ascii ''user''), (''content'', p)],
                           [(''role'', ascii ''assistant''), (''content'', answer)]])\<rparr>))
                 else (Done, Subheader CHAT_SUBHEADER # out, s))))"

text \<open>
  \<open>_render_idea_panel\<close> (lines 66 to 90). \<open>idea\<close> is the content of the text area,
  \<open>clicked\<close> what \<open>st.button\<close> returned, \<open>now\<close> the clock. \<open>idea_submit\<close> is the
  button's branch (lines 70 to 81), \<open>idea_list\<close> the list below it (lines 83 to 90),
  whose loop body is \<open>render_idea_items\<close> over the reversed list.
\<close>

definition idea_line :: "ustr \<Rightarrow> ustr \<Rightarrow> ustr \<Rightarrow> ustr" where
  "idea_line ts text ref = ascii ''- ('' @ ts @ ascii '' UTC) '' @ text @ REF_LINE @ ref"

fun render_idea_items :: "pydict list \<Rightarrow> outcome \<times> ui list" where
  "render_idea_items [] = (Done, [])"
| "render_idea_items (item # rest) =
     (let ref = dict_get item ''ref'' NO_REF
      in case getitem item ''ts'' of
           Inl e \<Rightarrow> (Raised e, [])
         | Inr ts \<Rightarrow>
            (case getitem item ''text'' of
               Inl e \<Rightarrow> (Raised e, [])
             | Inr text \<Rightarrow>
                (case render_idea_items rest of
                   (oc, out) \<Rightarrow> (oc, Markdown (idea_line ts text ref) # out))))"

definition idea_submit :: "ustr option \<Rightarrow> ustr \<Rightarrow> bool \<Rightarrow> datetime \<Rightarrow> session_state \<Rightarrow> run" where
  "idea_submit selected_ref idea clicked now s =
     (if clicked then
        (if strip idea = [] then (Done, [Warning EMPTY_WARNING], s)
         else
           (case ideas s of
              None \<Rightarrow> (Raised (AttributeError ''ideas''), [], s)
            | Some xs \<Rightarrow>
               (Done, [Success IDEA_SAVED],
                s\<lparr>ideas := Some (xs @
                  [[(''text'', strip idea),
                    (''ref'', or_else selected_ref NO_REF),
                    (''ts'', isoformat_seconds now)]])\<rparr>)))
      else (Done, [], s))"

definition idea_list :: "session_state \<Rightarrow> run" where
  "idea_list s =
     (case ideas s of
        None \<Rightarrow> (Raised (AttributeError ''ideas''), [], s)
      | Some xs \<Rightarrow>
         if xs \<noteq> [] then
           (case render_idea_items (rev xs) of
              (oc, out) \<Rightarrow> (oc, Markdown IDEA_HEADING # out, s))
         else (Done, [], s))"

definition render_idea_panel ::
  "ustr option \<Rightarrow> ustr \<Rightarrow> bool \<Rightarrow> datetime \<Rightarrow> session_state \<Rightarrow> run" where
  "render_idea_panel selected_ref idea clicked now s =
     then_run (Done, [Subheader IDEA_SUBHEADER], s)
       (\<lambda>s. then_run (idea_submit selected_ref idea clicked now s) idea_list)"

text \<open>
  \<open>_render_feedback_panel\<close> (lines 93 to 123), split the same way: \<open>feedback_submit\<close>
  is lines 106 to 116, \<open>feedback_list\<close> lines 118 to 123.
\<close>

definition feedback_line :: "ustr \<Rightarrow> ustr \<Rightarrow> ustr" where
  "feedback_line ts text = ascii ''- ('' @ ts @ ascii '' UTC) '' @ text"

fun render_feedback_items :: "pydict list \<Rightarrow> outcome \<times> ui list" where
  "render_feedback_items [] = (Done, [])"
| "render_feedback_items (item # rest) =
     (case getitem item ''ts'' of
        Inl e \<Rightarrow> (Raised e, [])
      | Inr ts \<Rightarrow>
         (case getitem item ''text'' of
            Inl e \<Rightarrow> (Raised e, [])
          | Inr text \<Rightarrow>
             (case render_feedback_items rest of
                (oc, out) \<Rightarrow> (oc, Markdown (feedback_line ts text) # out))))"

definition feedback_submit :: "ustr \<Rightarrow> bool \<Rightarrow> datetime \<Rightarrow> session_state \<Rightarrow> run" where
  "feedback_submit fb clicked now s =
     (if clicked then
        (if strip fb = [] then (Done, [Warning EMPTY_WARNING], s)
         else
           (case feedback s of
              None \<Rightarrow> (Raised (AttributeError ''feedback''), [], s)
            | Some ys \<Rightarrow>
               (Done, [Success FEEDBACK_SENT],
                s\<lparr>feedback := Some (ys @
                  [[(''text'', strip fb), (''ts'', isoformat_seconds now)]])\<rparr>)))
      else (Done, [], s))"

definition feedback_list :: "session_state \<Rightarrow> run" where
  "feedback_list s =
     (case feedback s of
        None \<Rightarrow> (Raised (AttributeError ''feedback''), [], s)
      | Some ys \<Rightarrow>
         if ys \<noteq> [] then
           (case render_feedback_items (rev ys) of
              (oc, out) \<Rightarrow> (oc, Markdown FEEDBACK_HEADING # out, s))
         else (Done, [], s))"

definition render_feedback_panel :: "ustr \<Rightarrow> bool \<Rightarrow> datetime \<Rightarrow> session_state \<Rightarrow> run" where
  "render_feedback_panel fb clicked now s =
     then_run (Done, [Html DIVIDER_HTML, Subheader FEEDBACK_SUBHEADER], s)
       (\<lambda>s. then_run (feedback_submit fb clicked now s) feedback_list)"

text \<open>
  \<open>main\<close> (lines 126 to 191). One run of the script reads the widgets: the select box
  (one of \<open>[None] + REFERENCE_MATERIALS\<close>), the chat input, the two text areas and the
  two buttons, and the clock where a record is stamped. The page configuration, the
  style sheet and the titles of \<open>main\<close> are constant and touch no state; the output of
  the model is that of the three panels.
\<close>

record run_input =
  in_ref :: "ustr option"
  in_prompt :: "ustr option"
  in_idea :: ustr
  in_idea_clicked :: bool
  in_idea_now :: datetime
  in_feedback :: ustr
  in_feedback_clicked :: bool
  in_feedback_now :: datetime

definition selectable :: "ustr option \<Rightarrow> bool" where
  "selectable r \<longleftrightarrow> r \<in> set (None # map Some REFERENCE_MATERIALS)"

definition main :: "run_input \<Rightarrow> session_state \<Rightarrow> run" where
  "main inp s =
     then_run (render_chat (in_ref inp) (in_prompt inp) (init_state s))
       (\<lambda>s. then_run
          (render_idea_panel (in_ref inp) (in_idea inp) (in_idea_clicked inp) (in_idea_now inp) s)
          (render_feedback_panel (in_feedback inp) (in_feedback_clicked inp) (in_feedback_now inp)))"

text \<open>
  A session is a sequence of runs over the same state. An exception ends the run in
  which it is raised; the state stays as that run left it.
\<close>

definition state_of :: "run \<Rightarrow> session_state" where
  "state_of r = snd (snd r)"

definition shown :: "run \<Rightarrow> ui list" where
  "shown r = fst (snd r)"

fun run_session :: "run_input list \<Rightarrow> session_state \<Rightarrow> session_state" where
  "run_session [] s = s"
| "run_session (inp # inps) s = run_session inps (state_of (main inp s))"

section \<open>Notions used to state the properties\<close>

text \<open>
  The three sequences of a session, an absent key read as the empty sequence (the first
  run of \<open>main\<close> creates it empty).
\<close>

definition chat_of :: "session_state \<Rightarrow> pydict list" where
  "chat_of s = (case chat_history s of None \<Rightarrow> [] | Some h \<Rightarrow> h)"

definition ideas_of :: "session_state \<Rightarrow> pydict list" where
  "ideas_of s = (case ideas s of None \<Rightarrow> [] | Some xs \<Rightarrow> xs)"

definition feedback_of :: "session_state \<Rightarrow> pydict list" where
  "feedback_of s = (case feedback s of None \<Rightarrow> [] | Some ys \<Rightarrow> ys)"

text \<open>A string that is empty or consists of white space only.\<close>

definition whitespace_only :: "ustr \<Rightarrow> bool" where
  "whitespace_only s = list_all isspace s"

text \<open>
  A state in which the panels can run: the three keys are there, every chat message has
  a role and a content, every idea and every feedback entry a text and a time stamp.
  \<open>main\<close> runs the panels in such a state, since it calls \<open>_init_state\<close> first and
  the panels append nothing else.
\<close>

definition has_key :: "pydict \<Rightarrow> string \<Rightarrow> bool" where
  "has_key d k = (map_of d k \<noteq> None)"

definition wf_msg :: "pydict \<Rightarrow> bool" where
  "wf_msg m = (has_key m ''role'' \<and> has_key m ''content'')"

definition wf_entry :: "pydict \<Rightarrow> bool" where
  "wf_entry e = (has_key e ''ts'' \<and> has_key e ''text'')"

definition wf_state :: "session_state \<Rightarrow> bool" where
  "wf_state s =
     (chat_history s \<noteq> None \<and> ideas s \<noteq> None \<and> feedback s \<noteq> None \<and>
      list_all wf_msg (chat_of s) \<and> list_all wf_entry (ideas_of s) \<and>
      list_all wf_entry (feedback_of s))"

text \<open>
  The two messages of one chat turn, and what a run of the chat panel adds to the
  history: the turn of an accepted prompt, nothing otherwise.
\<close>

definition chat_turn :: "ustr option \<Rightarrow> ustr \<Rightarrow> pydict list" where
  "chat_turn r p =
     [[(''role'', ascii ''user''), (''content'', p)],
      [(''role'', ascii ''assistant''), (''content'', fake_answer p r)]]"

fun chat_added :: "ustr option \<Rightarrow> ustr option \<Rightarrow> pydict list" where
  "chat_added r None = []"
| "chat_added r (Some p) = (if p \<noteq> [] then chat_turn r p else [])"

text \<open>
  The record of an idea and of a feedback entry (lines 75 to 79 and 111 to 114), and
  what a run of each panel adds to its list: the record of an accepted submission,
  nothing otherwise.
\<close>

definition idea_record :: "ustr option \<Rightarrow> ustr \<Rightarrow> datetime \<Rightarrow> pydict" where
  "idea_record r idea now =
     [(''text'', strip idea), (''ref'', or_else r NO_REF), (''ts'', isoformat_seconds now)]"

definition idea_added :: "ustr option \<Rightarrow> ustr \<Rightarrow> bool \<Rightarrow> datetime \<Rightarrow> pydict list" where
  "idea_added r idea clicked now =
     (if clicked \<and> strip idea \<noteq> [] then [idea_record r idea now] else [])"

definition feedback_record :: "ustr \<Rightarrow> datetime \<Rightarrow> pydict" where
  "feedback_record fb now = [(''text'', strip fb), (''ts'', isoformat_seconds now)]"

definition feedback_added :: "ustr \<Rightarrow> bool \<Rightarrow> datetime \<Rightarrow> pydict list" where
  "feedback_added fb clicked now =
     (if clicked \<and> strip fb \<noteq> [] then [feedback_record fb now] else [])"

text \<open>How the two lists show one entry: the lines of the loops at lines 85 and 120.\<close>

definition idea_entry :: "pydict \<Rightarrow> ui" where
  "idea_entry e =
     Markdown (idea_line (dict_get e ''ts'' []) (dict_get e ''text'' []) (dict_get e ''ref'' NO_REF))"

definition feedback_entry :: "pydict \<Rightarrow> ui" where
  "feedback_entry e = Markdown (feedback_line (dict_get e ''ts'' []) (dict_get e ''text'' []))"

text \<open>A chat message as the history loop shows it (lines 48 to 50).\<close>

definition chat_entry :: "pydict \<Rightarrow> ui" where
  "chat_entry m = ChatMessage (dict_get m ''role'' []) [Markdown (dict_get m ''content'' [])]"

text \<open>A clock value and two states used in the examples.\<close>

definition noon :: datetime where
  "noon = \<lparr>year = 2024, month = 3, day = 9, hour = 12, minute = 0, second = 7,
           microsecond = 250000\<rparr>"

definition fresh :: session_state where
  "fresh = \<lparr>chat_history = Some [], ideas = Some [], feedback = Some []\<rparr>"

definition busy :: session_state where
  "busy =
     \<lparr>chat_history = Some (chat_turn (Some (ascii ''Serway'')) (ascii ''F = ma?'')),
      ideas = Some [[(''text'', ascii ''quiz''), (''ref'', ascii ''Serway''),
                     (''ts'', ascii ''2024-03-09T11:00:00'')]],
      feedback = Some [[(''text'', ascii ''Add dark mode''),
                        (''ts'', ascii ''2024-03-09T11:30:00'')]]\<rparr>"

text \<open>
  Runs used in the examples: one in which only the chat input may hold a prompt, and
  one in which the idea button is clicked.
\<close>

definition chat_run :: "ustr option \<Rightarrow> ustr option \<Rightarrow> run_input" where
  "chat_run r p =
     \<lparr>in_ref = r, in_prompt = p, in_idea = [], in_idea_clicked = False, in_idea_now = noon,
      in_feedback = [], in_feedback_clicked = False, in_feedback_now = noon\<rparr>"

definition idea_run :: "ustr option \<Rightarrow> ustr \<Rightarrow> run_input" where
  "idea_run r idea =
     \<lparr>in_ref = r, in_prompt = None, in_idea = idea, in_idea_clicked = True, in_idea_now = noon,
      in_feedback = [], in_feedback_clicked = False, in_feedback_now = noon\<rparr>"

section \<open>Auxiliary facts\<close>

text \<open>White space, dictionaries and the loops over well-formed lists.\<close>

lemma strip_empty_iff: "strip s = [] \<longleftrightarrow> (\<forall>c\<in>set s. isspace c)"
proof
  assume "strip s = []"
  then have "dropWhile isspace (rev (dropWhile isspace s)) = []"
    by (simp add: strip_def rstrip_def lstrip_def)
  then have all: "\<forall>c\<in>set (dropWhile isspace s). isspace c"
    by (simp add: dropWhile_eq_Nil_conv)
  have "dropWhile isspace s = []"
  proof (cases "dropWhile isspace s")
    case Nil then show ?thesis .
  next
    case (Cons c cs)
    then have "\<not> isspace c" using hd_dropWhile [of isspace s] by auto
    with all Cons show ?thesis by simp
  qed
  then show "\<forall>c\<in>set s. isspace c" by (simp add: dropWhile_eq_Nil_conv)
next
  assume "\<forall>c\<in>set s. isspace c"
  then have d: "dropWhile isspace s = []" by (simp add: dropWhile_eq_Nil_conv)
  show "strip s = []" unfolding strip_def rstrip_def lstrip_def d by simp
qed

lemma strip_whitespace_only: "strip s = [] \<longleftrightarrow> whitespace_only s"
  by (simp add: strip_empty_iff whitespace_only_def list_all_iff)

lemma getitem_has_key: "has_key d k \<Longrightarrow> getitem d k = Inr (dict_get d k dflt)"
  by (auto simp: has_key_def getitem_def dict_get_def)

lemma render_history_wf:
  "list_all wf_msg h \<Longrightarrow> render_history h = (Done, map chat_entry h)"
  by (induction h) (simp_all add: wf_msg_def chat_entry_def getitem_has_key [where dflt = "[]"])

lemma render_idea_items_wf:
  "list_all wf_entry xs \<Longrightarrow> render_idea_items xs = (Done, map idea_entry xs)"
  by (induction xs) (simp_all add: wf_entry_def idea_entry_def getitem_has_key [where dflt = "[]"])

lemma render_feedback_items_wf:
  "list_all wf_entry ys \<Longrightarrow> render_feedback_items ys = (Done, map feedback_entry ys)"
  by (induction ys) (simp_all add: wf_entry_def feedback_entry_def getitem_has_key [where dflt = "[]"])

lemma wf_state_fresh: "wf_state fresh"
  by (simp add: wf_state_def fresh_def chat_of_def ideas_of_def feedback_of_def)

lemma wf_state_busy: "wf_state busy"
  by (simp add: wf_state_def busy_def chat_of_def ideas_of_def feedback_of_def chat_turn_def
      wf_msg_def wf_entry_def has_key_def)


text \<open>The panels in a state in which they can run: nothing is raised.\<close>

lemma render_chat_wf:
  assumes "wf_state s"
  shows "render_chat r p s =
    (Done, Subheader CHAT_SUBHEADER # map chat_entry (chat_of s) @ map chat_entry (chat_added r p),
     s\<lparr>chat_history := Some (chat_of s @ chat_added r p)\<rparr>)"
proof -
  from assms obtain h where h: "chat_history s = Some h" and wf: "list_all wf_msg h"
    by (auto simp: wf_state_def chat_of_def)
  have same: "s\<lparr>chat_history := Some h\<rparr> = s"
    using h by simp
  show ?thesis
  proof (cases p)
    case None
    then show ?thesis
      using h same by (simp add: render_chat_def render_history_wf [OF wf] chat_of_def)
  next
    case (Some q)
    then show ?thesis
      using h same
      by (simp add: render_chat_def render_history_wf [OF wf] chat_of_def chat_turn_def
          chat_entry_def dict_get_def Let_def)
  qed
qed

lemma idea_list_wf:
  assumes "wf_state s"
  shows "idea_list s =
    (Done, (if ideas_of s = [] then [] else Markdown IDEA_HEADING # map idea_entry (rev (ideas_of s))), s)"
proof -
  from assms obtain xs where xs: "ideas s = Some xs" and wf: "list_all wf_entry (rev xs)"
    by (auto simp: wf_state_def ideas_of_def)
  show ?thesis
    using xs by (simp add: idea_list_def ideas_of_def render_idea_items_wf [OF wf])
qed

lemma feedback_list_wf:
  assumes "wf_state s"
  shows "feedback_list s =
    (Done, (if feedback_of s = [] then []
            else Markdown FEEDBACK_HEADING # map feedback_entry (rev (feedback_of s))), s)"
proof -
  from assms obtain ys where ys: "feedback s = Some ys" and wf: "list_all wf_entry (rev ys)"
    by (auto simp: wf_state_def feedback_of_def)
  show ?thesis
    using ys by (simp add: feedback_list_def feedback_of_def render_feedback_items_wf [OF wf])
qed

lemma then_run_Done: "then_run (Done, out, s) f = (case f s of (oc, out', s') \<Rightarrow> (oc, out @ out', s'))"
  by (simp add: then_run_def)

lemma then_run_Raised: "then_run (Raised e, out, s) f = (Raised e, out, s)"
  by (simp add: then_run_def)


lemma idea_submit_wf:
  assumes "wf_state s"
  shows "idea_submit r idea clicked now s =
    (Done,
     (if clicked then (if strip idea = [] then [Warning EMPTY_WARNING] else [Success IDEA_SAVED])
      else []),
     s\<lparr>ideas := Some (ideas_of s @ idea_added r idea clicked now)\<rparr>)"
proof -
  from assms obtain xs where xs: "ideas s = Some xs"
    by (auto simp: wf_state_def)
  then have same: "s\<lparr>ideas := Some xs\<rparr> = s" by simp
  show ?thesis
    using xs same by (simp add: idea_submit_def ideas_of_def idea_added_def idea_record_def)
qed

lemma feedback_submit_wf:
  assumes "wf_state s"
  shows "feedback_submit fb clicked now s =
    (Done,
     (if clicked then (if strip fb = [] then [Warning EMPTY_WARNING] else [Success FEEDBACK_SENT])
      else []),
     s\<lparr>feedback := Some (feedback_of s @ feedback_added fb clicked now)\<rparr>)"
proof -
  from assms obtain ys where ys: "feedback s = Some ys"
    by (auto simp: wf_state_def)
  then have same: "s\<lparr>feedback := Some ys\<rparr> = s" by simp
  show ?thesis
    using ys same
    by (simp add: feedback_submit_def feedback_of_def feedback_added_def feedback_record_def)
qed

lemma wf_state_chat_update:
  "wf_state s \<Longrightarrow> list_all wf_msg new \<Longrightarrow> wf_state (s\<lparr>chat_history := Some (chat_of s @ new)\<rparr>)"
  by (simp add: wf_state_def chat_of_def ideas_of_def feedback_of_def)

lemma wf_state_ideas_update:
  "wf_state s \<Longrightarrow> list_all wf_entry new \<Longrightarrow> wf_state (s\<lparr>ideas := Some (ideas_of s @ new)\<rparr>)"
  by (simp add: wf_state_def chat_of_def ideas_of_def feedback_of_def)

lemma wf_state_feedback_update:
  "wf_state s \<Longrightarrow> list_all wf_entry new \<Longrightarrow> wf_state (s\<lparr>feedback := Some (feedback_of s @ new)\<rparr>)"
  by (simp add: wf_state_def chat_of_def ideas_of_def feedback_of_def)

lemma wf_chat_added: "list_all wf_msg (chat_added r p)"
  by (cases p) (simp_all add: chat_turn_def wf_msg_def has_key_def)

lemma wf_idea_added: "list_all wf_entry (idea_added r idea clicked now)"
  by (simp add: idea_added_def idea_record_def wf_entry_def has_key_def)

lemma wf_feedback_added: "list_all wf_entry (feedback_added fb clicked now)"
  by (simp add: feedback_added_def feedback_record_def wf_entry_def has_key_def)

lemma render_idea_panel_wf:
  assumes "wf_state s"
  shows "render_idea_panel r idea clicked now s =
    (Done,
     Subheader IDEA_SUBHEADER #
       (if clicked then (if strip idea = [] then [Warning EMPTY_WARNING] else [Success IDEA_SAVED])
        else []) @
       (if ideas_of s @ idea_added r idea clicked now = [] then []
        else Markdown IDEA_HEADING #
             map idea_entry (rev (ideas_of s @ idea_added r idea clicked now))),
     s\<lparr>ideas := Some (ideas_of s @ idea_added r idea clicked now)\<rparr>)"
proof -
  let ?s' = "s\<lparr>ideas := Some (ideas_of s @ idea_added r idea clicked now)\<rparr>"
  have wf': "wf_state ?s'"
    using assms wf_idea_added by (rule wf_state_ideas_update)
  have of': "ideas_of ?s' = ideas_of s @ idea_added r idea clicked now"
    by (simp add: ideas_of_def)
  show ?thesis
    unfolding render_idea_panel_def then_run_Done idea_submit_wf [OF assms]
      idea_list_wf [OF wf'] of'
    by simp
qed

lemma render_feedback_panel_wf:
  assumes "wf_state s"
  shows "render_feedback_panel fb clicked now s =
    (Done,
     Html DIVIDER_HTML # Subheader FEEDBACK_SUBHEADER #
       (if clicked then (if strip fb = [] then [Warning EMPTY_WARNING] else [Success FEEDBACK_SENT])
        else []) @
       (if feedback_of s @ feedback_added fb clicked now = [] then []
        else Markdown FEEDBACK_HEADING #
             map feedback_entry (rev (feedback_of s @ feedback_added fb clicked now))),
     s\<lparr>feedback := Some (feedback_of s @ feedback_added fb clicked now)\<rparr>)"
proof -
  let ?s' = "s\<lparr>feedback := Some (feedback_of s @ feedback_added fb clicked now)\<rparr>"
  have wf': "wf_state ?s'"
    using assms wf_feedback_added by (rule wf_state_feedback_update)
  have of': "feedback_of ?s' = feedback_of s @ feedback_added fb clicked now"
    by (simp add: feedback_of_def)
  show ?thesis
    unfolding render_feedback_panel_def then_run_Done feedback_submit_wf [OF assms]
      feedback_list_wf [OF wf'] of'
    by simp
qed


text \<open>
  Runs of \<open>main\<close>. Every state of a session that starts empty is one in which, after
  \<open>_init_state\<close>, the panels can run (\<open>run_session_wf\<close>), and each run appends to
  the three sequences what its inputs add.
\<close>

lemma init_state_seqs:
  "chat_of (init_state s) = chat_of s"
  "ideas_of (init_state s) = ideas_of s"
  "feedback_of (init_state s) = feedback_of s"
  by (auto simp: init_state_def chat_of_def ideas_of_def feedback_of_def Let_def)

lemma init_state_present:
  "chat_history s \<noteq> None \<Longrightarrow> ideas s \<noteq> None \<Longrightarrow> feedback s \<noteq> None \<Longrightarrow> init_state s = s"
  by (simp add: init_state_def Let_def)

lemma init_state_wf: "wf_state s \<Longrightarrow> init_state s = s"
  by (simp add: init_state_present wf_state_def)

lemma wf_state_init_empty: "wf_state (init_state empty_session)"
  by (simp add: wf_state_def init_state_def empty_session_def chat_of_def ideas_of_def feedback_of_def)

lemma main_wf:
  assumes "wf_state (init_state s)"
  shows "fst (main inp s) = Done"
    and "state_of (main inp s) =
      (init_state s)\<lparr>chat_history := Some (chat_of s @ chat_added (in_ref inp) (in_prompt inp)),
        ideas := Some (ideas_of s @
          idea_added (in_ref inp) (in_idea inp) (in_idea_clicked inp) (in_idea_now inp)),
        feedback := Some (feedback_of s @
          feedback_added (in_feedback inp) (in_feedback_clicked inp) (in_feedback_now inp))\<rparr>"
proof -
  let ?s0 = "init_state s"
  let ?s1 = "?s0\<lparr>chat_history := Some (chat_of s @ chat_added (in_ref inp) (in_prompt inp))\<rparr>"
  let ?s2 = "?s1\<lparr>ideas := Some (ideas_of s @
          idea_added (in_ref inp) (in_idea inp) (in_idea_clicked inp) (in_idea_now inp))\<rparr>"
  let ?s3 = "?s2\<lparr>feedback := Some (feedback_of s @
          feedback_added (in_feedback inp) (in_feedback_clicked inp) (in_feedback_now inp))\<rparr>"
  have i1: "ideas_of ?s1 = ideas_of s"
    using init_state_seqs(2) [of s] by (simp add: ideas_of_def)
  have f2: "feedback_of ?s2 = feedback_of s"
    using init_state_seqs(3) [of s] by (simp add: feedback_of_def)
  have wf1: "wf_state ?s1"
    using wf_state_chat_update [OF assms wf_chat_added] by (simp add: init_state_seqs)
  have wf2: "wf_state ?s2"
    using wf_state_ideas_update [OF wf1 wf_idea_added] by (simp only: i1)
  obtain o1 where rc: "render_chat (in_ref inp) (in_prompt inp) ?s0 = (Done, o1, ?s1)"
    using render_chat_wf [OF assms] by (simp add: init_state_seqs)
  obtain o2 where ri: "render_idea_panel (in_ref inp) (in_idea inp) (in_idea_clicked inp)
      (in_idea_now inp) ?s1 = (Done, o2, ?s2)"
    using render_idea_panel_wf [OF wf1] by (simp only: i1)
  obtain o3 where rf: "render_feedback_panel (in_feedback inp) (in_feedback_clicked inp)
      (in_feedback_now inp) ?s2 = (Done, o3, ?s3)"
    using render_feedback_panel_wf [OF wf2] by (simp only: f2)
  have m: "main inp s = (Done, o1 @ o2 @ o3, ?s3)"
    by (simp add: main_def rc ri rf then_run_Done)
  show "fst (main inp s) = Done"
    by (simp add: m)
  show "state_of (main inp s) =
      (init_state s)\<lparr>chat_history := Some (chat_of s @ chat_added (in_ref inp) (in_prompt inp)),
        ideas := Some (ideas_of s @
          idea_added (in_ref inp) (in_idea inp) (in_idea_clicked inp) (in_idea_now inp)),
        feedback := Some (feedback_of s @
          feedback_added (in_feedback inp) (in_feedback_clicked inp) (in_feedback_now inp))\<rparr>"
    by (simp add: m state_of_def)
qed

lemma main_keeps_wf:
  assumes "wf_state (init_state s)"
  shows "wf_state (state_of (main inp s))"
proof -
  have "list_all wf_msg (chat_of (init_state s))" "list_all wf_entry (ideas_of (init_state s))"
    "list_all wf_entry (feedback_of (init_state s))"
    using assms by (simp_all add: wf_state_def)
  then show ?thesis
    unfolding main_wf(2) [OF assms] init_state_seqs
    using wf_chat_added wf_idea_added wf_feedback_added
    by (simp add: wf_state_def chat_of_def ideas_of_def feedback_of_def)
qed

lemma main_seqs:
  assumes "wf_state (init_state s)"
  shows "chat_of (state_of (main inp s)) = chat_of s @ chat_added (in_ref inp) (in_prompt inp)"
    and "ideas_of (state_of (main inp s)) = ideas_of s @
          idea_added (in_ref inp) (in_idea inp) (in_idea_clicked inp) (in_idea_now inp)"
    and "feedback_of (state_of (main inp s)) = feedback_of s @
          feedback_added (in_feedback inp) (in_feedback_clicked inp) (in_feedback_now inp)"
  unfolding main_wf(2) [OF assms]
  by (simp_all add: chat_of_def ideas_of_def feedback_of_def)

lemma run_session_wf:
  "wf_state (init_state s) \<Longrightarrow> wf_state (init_state (run_session inps s))"
proof (induction inps arbitrary: s)
  case Nil
  then show ?case by simp
next
  case (Cons inp inps)
  have "wf_state (state_of (main inp s))"
    using Cons.prems by (rule main_keeps_wf)
  then have "wf_state (init_state (state_of (main inp s)))"
    by (simp add: init_state_wf)
  then show ?case
    using Cons.IH by simp
qed

lemma run_session_chat:
  "wf_state (init_state s) \<Longrightarrow>
   chat_of (run_session inps s) =
     chat_of s @ concat (map (\<lambda>i. chat_added (in_ref i) (in_prompt i)) inps)"
proof (induction inps arbitrary: s)
  case Nil
  then show ?case by simp
next
  case (Cons inp inps)
  have "wf_state (state_of (main inp s))"
    using Cons.prems by (rule main_keeps_wf)
  then have "wf_state (init_state (state_of (main inp s)))"
    by (simp add: init_state_wf)
  from Cons.IH [OF this] show ?case
    by (simp add: main_seqs(1) [OF Cons.prems])
qed

lemma run_session_ideas:
  "wf_state (init_state s) \<Longrightarrow>
   ideas_of (run_session inps s) =
     ideas_of s @ concat (map (\<lambda>i. idea_added (in_ref i) (in_idea i) (in_idea_clicked i)
       (in_idea_now i)) inps)"
proof (induction inps arbitrary: s)
  case Nil
  then show ?case by simp
next
  case (Cons inp inps)
  have "wf_state (state_of (main inp s))"
    using Cons.prems by (rule main_keeps_wf)
  then have "wf_state (init_state (state_of (main inp s)))"
    by (simp add: init_state_wf)
  from Cons.IH [OF this] show ?case
    by (simp add: main_seqs(2) [OF Cons.prems])
qed

text \<open>Time stamps, selections and the records appended.\<close>

lemma isoformat_seconds_microsecond:
  "isoformat_seconds (dt\<lparr>microsecond := us\<rparr>) = isoformat_seconds dt"
  by (simp add: isoformat_seconds_def)

lemma isoformat_seconds_noon: "isoformat_seconds noon = ascii ''2024-03-09T12:00:07''"
  by (simp add: isoformat_seconds_def noon_def zfill_def digits.simps ascii_def)

lemma selectable_or_else:
  "selectable r \<Longrightarrow> or_else r d = (case r of None \<Rightarrow> d | Some n \<Rightarrow> n)"
  by (cases r) (auto simp: selectable_def REFERENCE_MATERIALS_def ascii_def)

lemma strip_hi: "strip (ascii '' hi '') = ascii ''hi''"
  by (simp add: strip_def lstrip_def rstrip_def isspace_def ascii_def)

lemma chat_of_empty_session: "chat_of empty_session = []"
  by (simp add: chat_of_def empty_session_def)

lemma ideas_of_empty_session: "ideas_of empty_session = []"
  by (simp add: ideas_of_def empty_session_def)

lemma chat_added_truthy: "chat_added r p = (if truthy p then chat_turn r (the p) else [])"
  by (cases p) simp_all

lemma length_chat_added:
  "length (concat (map (\<lambda>i. chat_added (in_ref i) (in_prompt i)) inps)) =
   2 * length (filter (\<lambda>i. truthy (in_prompt i)) inps)"
  by (induction inps) (simp_all add: chat_added_truthy chat_turn_def)

lemma roles_chat_added:
  "map (\<lambda>m. map_of m ''role'') (concat (map (\<lambda>i. chat_added (in_ref i) (in_prompt i)) inps)) =
   concat (replicate (length (filter (\<lambda>i. truthy (in_prompt i)) inps))
     [Some (ascii ''user''), Some (ascii ''assistant'')])"
  by (induction inps) (simp_all add: chat_added_truthy chat_turn_def)

lemma run_session_Done:
  assumes "wf_state (init_state s)" and "k < length inps"
  shows "fst (main (inps ! k) (run_session (take k inps) s)) = Done"
  using run_session_wf [OF assms(1), of "take k inps"] by (rule main_wf(1))

lemma render_idea_panel_state:
  "state_of (render_idea_panel r idea clicked now s) = state_of (idea_submit r idea clicked now s)"
  by (simp add: render_idea_panel_def then_run_def idea_submit_def idea_list_def state_of_def
      split: option.splits prod.splits outcome.splits)

lemma idea_submit_ideas:
  "ideas_of (state_of (idea_submit r idea clicked now s)) =
   ideas_of s @
   (if clicked \<and> strip idea \<noteq> [] \<and> ideas s \<noteq> None then [idea_record r idea now] else [])"
  by (auto simp: idea_submit_def state_of_def ideas_of_def idea_record_def split: option.splits)

lemma or_else_nonempty: "d \<noteq> [] \<Longrightarrow> or_else r d \<noteq> []"
  by (cases r) simp_all

lemma NO_REF_nonempty: "NO_REF \<noteq> []"
  by (simp add: NO_REF_def)

lemma idea_added_ref:
  "e \<in> set (idea_added r idea clicked now) \<Longrightarrow>
   map_of e ''ref'' = Some (or_else r NO_REF) \<and> dict_get e ''ref'' NO_REF = or_else r NO_REF"
  by (simp add: idea_added_def idea_record_def dict_get_def split: if_splits)

section \<open>The claims\<close>

text \<open>
  Claim C7. \<open>_init_state\<close> is idempotent over the three sequences. On the first access
  of a session (no key there) it sets the chat, idea and feedback sequences to empty;
  running it again changes nothing; in any state in which the three keys exist it leaves
  the state as it is, and each sequence that exists is kept whatever the other keys are.
\<close>

theorem init_state_idempotent:
  "init_state empty_session = \<lparr>chat_history = Some [], ideas = Some [], feedback = Some []\<rparr> \<and>
   init_state (init_state s) = init_state s \<and>
   (chat_history s \<noteq> None \<and> ideas s \<noteq> None \<and> feedback s \<noteq> None \<longrightarrow> init_state s = s) \<and>
   (chat_history s \<noteq> None \<longrightarrow> chat_history (init_state s) = chat_history s) \<and>
   (ideas s \<noteq> None \<longrightarrow> ideas (init_state s) = ideas s) \<and>
   (feedback s \<noteq> None \<longrightarrow> feedback (init_state s) = feedback s)"
  by (simp add: init_state_def empty_session_def Let_def)

theorem init_state_idempotent_witness:
  "chat_history busy \<noteq> None \<and> ideas busy \<noteq> None \<and> feedback busy \<noteq> None \<and>
   init_state busy = busy \<and> init_state (init_state busy) = busy \<and>
   chat_history (init_state busy) = chat_history busy"
  using init_state_idempotent [of busy] by (simp add: busy_def)

text \<open>
  Claim C2. \<open>_fake_answer\<close> is a function of the question and the reference, defined for
  every question (the empty one too) and every reference of the select box (one of the
  three names, or none). Its output is the question label, the question verbatim, the
  reference label, the reference's name when one is selected and the marker
  \<open>NO_REF_SELECTED\<close> otherwise, and it ends with the fixed placeholder line.
\<close>

theorem fake_answer_contains:
  assumes "selectable r"
  shows "fake_answer q r =
      QUESTION_LABEL @ q @ [10, 10] @ REFERENCE_LABEL @
      (case r of None \<Rightarrow> NO_REF_SELECTED | Some n \<Rightarrow> n) @ [10] @ PLACEHOLDER_SUFFIX \<and>
    sublist q (fake_answer q r) \<and>
    (case r of None \<Rightarrow> sublist NO_REF_SELECTED (fake_answer q r)
     | Some n \<Rightarrow> n \<noteq> [] \<and> sublist n (fake_answer q r)) \<and>
    suffix PLACEHOLDER_SUFFIX (fake_answer q r)"
proof -
  let ?t = "case r of None \<Rightarrow> NO_REF_SELECTED | Some n \<Rightarrow> n"
  from assms have ne: "\<And>n. r = Some n \<Longrightarrow> n \<noteq> []"
    by (auto simp: selectable_def REFERENCE_MATERIALS_def ascii_def)
  then have t: "or_else r NO_REF_SELECTED = ?t"
    by (cases r) simp_all
  have shape: "fake_answer q r =
      QUESTION_LABEL @ q @ [10, 10] @ REFERENCE_LABEL @ ?t @ [10] @ PLACEHOLDER_SUFFIX"
    by (simp add: fake_answer_def t)
  have q: "sublist q (fake_answer q r)"
    unfolding shape by (rule sublist_appendI)
  have "fake_answer q r = (QUESTION_LABEL @ q @ [10, 10] @ REFERENCE_LABEL) @ ?t @ ([10] @ PLACEHOLDER_SUFFIX)"
    unfolding shape by simp
  then have "sublist ?t (fake_answer q r)"
    by (simp only: sublist_appendI)
  then have rf: "case r of None \<Rightarrow> sublist NO_REF_SELECTED (fake_answer q r)
     | Some n \<Rightarrow> n \<noteq> [] \<and> sublist n (fake_answer q r)"
    using ne by (cases r) simp_all
  have "fake_answer q r = (QUESTION_LABEL @ q @ [10, 10] @ REFERENCE_LABEL @ ?t @ [10]) @ PLACEHOLDER_SUFFIX"
    unfolding shape by simp
  then have sf: "suffix PLACEHOLDER_SUFFIX (fake_answer q r)"
    by (rule suffixI)
  from shape q rf sf show ?thesis by blast
qed

theorem fake_answer_contains_witness:
  "selectable (Some (ascii ''Halliday'')) \<and>
   sublist (ascii ''What is Newton's second law?'')
     (fake_answer (ascii ''What is Newton's second law?'') (Some (ascii ''Halliday''))) \<and>
   sublist (ascii ''Halliday'')
     (fake_answer (ascii ''What is Newton's second law?'') (Some (ascii ''Halliday''))) \<and>
   suffix PLACEHOLDER_SUFFIX
     (fake_answer (ascii ''What is Newton's second law?'') (Some (ascii ''Halliday'')))"
proof -
  have h: "selectable (Some (ascii ''Halliday''))"
    by (simp add: selectable_def REFERENCE_MATERIALS_def)
  show ?thesis
    using h fake_answer_contains [OF h, of "ascii ''What is Newton's second law?''"]
    unfolding option.case by blast
qed

text \<open>
  Claim C8. Each panel mutates its own sequence only, in every state and also when it
  raises: the chat panel leaves the ideas and the feedback as they are, the idea panel
  the chat history and the feedback, the feedback panel the chat history and the ideas.
\<close>

theorem handlers_frame:
  "ideas (state_of (render_chat r p s)) = ideas s \<and>
   feedback (state_of (render_chat r p s)) = feedback s \<and>
   chat_history (state_of (render_idea_panel r idea clicked now s)) = chat_history s \<and>
   feedback (state_of (render_idea_panel r idea clicked now s)) = feedback s \<and>
   chat_history (state_of (render_feedback_panel fb clicked now s)) = chat_history s \<and>
   ideas (state_of (render_feedback_panel fb clicked now s)) = ideas s"
proof -
  have c: "ideas (state_of (render_chat r p s)) = ideas s \<and>
      feedback (state_of (render_chat r p s)) = feedback s"
    by (simp add: render_chat_def state_of_def Let_def split: option.splits prod.splits outcome.splits)
  have i: "chat_history (state_of (render_idea_panel r idea clicked now s)) = chat_history s \<and>
      feedback (state_of (render_idea_panel r idea clicked now s)) = feedback s"
    by (simp add: render_idea_panel_def then_run_def idea_submit_def idea_list_def state_of_def
        split: option.splits prod.splits outcome.splits)
  have f: "chat_history (state_of (render_feedback_panel fb clicked now s)) = chat_history s \<and>
      ideas (state_of (render_feedback_panel fb clicked now s)) = ideas s"
    by (simp add: render_feedback_panel_def then_run_def feedback_submit_def feedback_list_def
        state_of_def split: option.splits prod.splits outcome.splits)
  from c i f show ?thesis by blast
qed

text \<open>
  The claim C1 as stated fails at a prompt of one space: it is white space only, yet the
  chat panel appends the user message and the generated answer.
\<close>

theorem chat_whitespace_counterexample:
  "whitespace_only (ascii '' '') \<and>
   fst (render_chat None (Some (ascii '' '')) fresh) = Done \<and>
   chat_history (state_of (render_chat None (Some (ascii '' '')) fresh)) =
     Some (chat_turn None (ascii '' '')) \<and>
   length (chat_of (state_of (render_chat None (Some (ascii '' '')) fresh))) = 2 \<and>
   chat_history (state_of (render_chat None (Some (ascii '' '')) fresh)) \<noteq> chat_history fresh"
  by (simp add: whitespace_only_def isspace_def ascii_def render_chat_def fresh_def state_of_def
      chat_turn_def chat_of_def Let_def)

text \<open>
  Claim C1, as amended. When the chat input is empty (the empty string, or nothing
  submitted), \<open>_render_chat\<close> makes no transition: the session state is unchanged in
  every state, and in a state in which the panels can run nothing is raised and only
  the history is shown, with no answer. The claim as stated also covers a non-empty
  input of white space only; \<open>if prompt:\<close> accepts that input like any other non-empty
  string, as the example below shows.
\<close>

theorem chat_empty_no_transition:
  assumes "\<not> truthy p"
  shows "state_of (render_chat r p s) = s \<and>
    (wf_state s \<longrightarrow>
       fst (render_chat r p s) = Done \<and>
       shown (render_chat r p s) = Subheader CHAT_SUBHEADER # map chat_entry (chat_of s))"
proof -
  from assms have p: "p = None \<or> p = Some []"
    by (cases p) simp_all
  then have st: "state_of (render_chat r p s) = s"
    by (auto simp: render_chat_def state_of_def split: option.splits prod.splits outcome.splits)
  from p have none: "chat_added r p = []"
    by auto
  have "fst (render_chat r p s) = Done \<and>
       shown (render_chat r p s) = Subheader CHAT_SUBHEADER # map chat_entry (chat_of s)"
    if "wf_state s"
    by (simp add: render_chat_wf [OF that] none shown_def)
  with st show ?thesis by blast
qed

theorem chat_empty_no_transition_witness:
  "\<not> truthy (Some []) \<and> wf_state busy \<and>
   state_of (render_chat (Some (ascii ''Halliday'')) (Some []) busy) = busy \<and>
   fst (render_chat (Some (ascii ''Halliday'')) (Some []) busy) = Done \<and>
   shown (render_chat (Some (ascii ''Halliday'')) (Some []) busy) =
     Subheader CHAT_SUBHEADER # map chat_entry (chat_of busy)"
proof -
  have h: "\<not> truthy (Some [])" by simp
  show ?thesis
    using h wf_state_busy chat_empty_no_transition [OF h, of "Some (ascii ''Halliday'')" busy]
    by blast
qed

text \<open>
  Claim C4. When the submitted idea or feedback text is empty or white space only, the
  panel takes the warning path: it shows the warning, raises nothing, leaves the session
  state as it is (so the length of its sequence is unchanged), and shows the list as it was.
\<close>

theorem empty_submission_warns:
  assumes "whitespace_only t" and "wf_state s"
  shows "fst (render_idea_panel r t True now s) = Done \<and>
    state_of (render_idea_panel r t True now s) = s \<and>
    shown (render_idea_panel r t True now s) =
      Subheader IDEA_SUBHEADER # Warning EMPTY_WARNING # shown (idea_list s) \<and>
    length (ideas_of (state_of (render_idea_panel r t True now s))) = length (ideas_of s) \<and>
    fst (render_feedback_panel t True now s) = Done \<and>
    state_of (render_feedback_panel t True now s) = s \<and>
    shown (render_feedback_panel t True now s) =
      Html DIVIDER_HTML # Subheader FEEDBACK_SUBHEADER # Warning EMPTY_WARNING #
      shown (feedback_list s) \<and>
    length (feedback_of (state_of (render_feedback_panel t True now s))) = length (feedback_of s)"
proof -
  from assms(1) have e: "strip t = []"
    by (simp add: strip_whitespace_only)
  from assms(2) have xs: "s\<lparr>ideas := Some (ideas_of s)\<rparr> = s"
    and ys: "s\<lparr>feedback := Some (feedback_of s)\<rparr> = s"
    by (auto simp: wf_state_def ideas_of_def feedback_of_def)
  have i: "render_idea_panel r t True now s =
      (Done, Subheader IDEA_SUBHEADER # Warning EMPTY_WARNING # shown (idea_list s), s)"
    by (simp add: render_idea_panel_wf [OF assms(2)] idea_list_wf [OF assms(2)] e idea_added_def
        xs shown_def)
  have f: "render_feedback_panel t True now s =
      (Done, Html DIVIDER_HTML # Subheader FEEDBACK_SUBHEADER # Warning EMPTY_WARNING #
         shown (feedback_list s), s)"
    by (simp add: render_feedback_panel_wf [OF assms(2)] feedback_list_wf [OF assms(2)] e
        feedback_added_def ys shown_def)
  show ?thesis
    by (simp add: i f state_of_def shown_def)
qed

theorem empty_submission_warns_witness:
  "whitespace_only (ascii ''  '') \<and> wf_state busy \<and>
   fst (render_idea_panel None (ascii ''  '') True noon busy) = Done \<and>
   state_of (render_idea_panel None (ascii ''  '') True noon busy) = busy \<and>
   shown (render_idea_panel None (ascii ''  '') True noon busy) =
      Subheader IDEA_SUBHEADER # Warning EMPTY_WARNING # shown (idea_list busy) \<and>
   state_of (render_feedback_panel (ascii ''  '') True noon busy) = busy \<and>
   length (feedback_of (state_of (render_feedback_panel (ascii ''  '') True noon busy))) = 1"
proof -
  have h: "whitespace_only (ascii ''  '')"
    by (simp add: whitespace_only_def ascii_def isspace_def)
  have n: "length (feedback_of busy) = 1"
    by (simp add: busy_def feedback_of_def)
  show ?thesis
    using h wf_state_busy n empty_submission_warns [OF h wf_state_busy, of None noon]
    by simp
qed

text \<open>
  The claim C5 as stated fails at an idea of two spaces: its length is greater than 0,
  yet no record is appended, as its trimmed form is empty.
\<close>

theorem idea_blank_counterexample:
  "0 < length (ascii ''  '') \<and>
   fst (render_idea_panel None (ascii ''  '') True noon fresh) = Done \<and>
   state_of (render_idea_panel None (ascii ''  '') True noon fresh) = fresh \<and>
   length (ideas_of (state_of (render_idea_panel None (ascii ''  '') True noon fresh))) =
     length (ideas_of fresh)"
proof -
  have e: "strip (ascii ''  '') = []"
    by (simp add: strip_def lstrip_def rstrip_def isspace_def ascii_def)
  have same: "fresh\<lparr>ideas := Some []\<rparr> = fresh"
    by (simp add: fresh_def)
  have "render_idea_panel None (ascii ''  '') True noon fresh =
      (Done, [Subheader IDEA_SUBHEADER, Warning EMPTY_WARNING], fresh)"
    by (simp add: render_idea_panel_wf [OF wf_state_fresh] e idea_added_def)
       (simp add: ideas_of_def fresh_def)
  then show ?thesis
    by (simp add: state_of_def ascii_def)
qed

text \<open>
  Claim C5, as amended. For every submitted idea whose trimmed text is not empty, in a
  state in which the panels can run, the ideas sequence grows by exactly one record. The
  record holds the trimmed text, the reference selected at that moment (the marker
  \<open>NO_REF\<close> when none is selected) and the clock's value printed down to the second:
  the microseconds do not show in it. The confirmation is shown.
\<close>

theorem idea_submission_appends:
  assumes "strip idea \<noteq> []" and "selectable r" and "wf_state s"
  shows "fst (render_idea_panel r idea True now s) = Done \<and>
    ideas_of (state_of (render_idea_panel r idea True now s)) =
      ideas_of s @
      [[(''text'', strip idea),
        (''ref'', case r of None \<Rightarrow> NO_REF | Some n \<Rightarrow> n),
        (''ts'', isoformat_seconds now)]] \<and>
    length (ideas_of (state_of (render_idea_panel r idea True now s))) = length (ideas_of s) + 1 \<and>
    isoformat_seconds now = isoformat_seconds (now\<lparr>microsecond := 0\<rparr>) \<and>
    Success IDEA_SAVED \<in> set (shown (render_idea_panel r idea True now s))"
proof -
  have a: "idea_added r idea True now =
      [[(''text'', strip idea),
        (''ref'', case r of None \<Rightarrow> NO_REF | Some n \<Rightarrow> n),
        (''ts'', isoformat_seconds now)]]"
    using assms(1) by (simp add: idea_added_def idea_record_def selectable_or_else [OF assms(2)])
  show ?thesis
    unfolding render_idea_panel_wf [OF assms(3)] a
    using assms(1)
    by (simp add: state_of_def shown_def ideas_of_def isoformat_seconds_microsecond)
qed

theorem idea_submission_appends_witness:
  "strip (ascii '' hi '') \<noteq> [] \<and> selectable (Some (ascii ''Serway'')) \<and> wf_state busy \<and>
   fst (render_idea_panel (Some (ascii ''Serway'')) (ascii '' hi '') True noon busy) = Done \<and>
   ideas_of (state_of (render_idea_panel (Some (ascii ''Serway'')) (ascii '' hi '') True noon busy)) =
     ideas_of busy @
     [[(''text'', ascii ''hi''), (''ref'', ascii ''Serway''),
       (''ts'', ascii ''2024-03-09T12:00:07'')]] \<and>
   length (ideas_of (state_of
     (render_idea_panel (Some (ascii ''Serway'')) (ascii '' hi '') True noon busy))) = 2"
proof -
  have h1: "strip (ascii '' hi '') \<noteq> []"
    unfolding strip_hi by (simp add: ascii_def)
  have h2: "selectable (Some (ascii ''Serway''))"
    by (simp add: selectable_def REFERENCE_MATERIALS_def)
  have n: "length (ideas_of busy) = 1"
    by (simp add: busy_def ideas_of_def)
  show ?thesis
    using h1 h2 wf_state_busy n idea_submission_appends [OF h1 h2 wf_state_busy, of noon]
    by (simp add: strip_hi isoformat_seconds_noon)
qed

text \<open>
  Claim C10. An accepted chat prompt is stored as it was submitted: the user message
  appended to the history has the prompt itself as content, white space included, and
  the answer is generated from that same string. The idea and the feedback panel store
  the trimmed text instead.
\<close>

theorem chat_stores_prompt_verbatim:
  assumes "p \<noteq> []" and "wf_state s"
  shows "chat_of (state_of (render_chat r (Some p) s)) =
      chat_of s @
      [[(''role'', ascii ''user''), (''content'', p)],
       [(''role'', ascii ''assistant''), (''content'', fake_answer p r)]] \<and>
    (strip p \<noteq> [] \<longrightarrow>
      ideas_of (state_of (render_idea_panel r p True now s)) =
        ideas_of s @
        [[(''text'', strip p), (''ref'', or_else r NO_REF), (''ts'', isoformat_seconds now)]] \<and>
      feedback_of (state_of (render_feedback_panel p True now s)) =
        feedback_of s @ [[(''text'', strip p), (''ts'', isoformat_seconds now)]])"
proof -
  have c: "chat_of (state_of (render_chat r (Some p) s)) =
      chat_of s @
      [[(''role'', ascii ''user''), (''content'', p)],
       [(''role'', ascii ''assistant''), (''content'', fake_answer p r)]]"
    using assms(1) by (simp add: render_chat_wf [OF assms(2)] state_of_def chat_of_def chat_turn_def)
  have i: "ideas_of (state_of (render_idea_panel r p True now s)) =
        ideas_of s @
        [[(''text'', strip p), (''ref'', or_else r NO_REF), (''ts'', isoformat_seconds now)]]"
    if "strip p \<noteq> []"
    using that
    by (simp add: render_idea_panel_wf [OF assms(2)] state_of_def ideas_of_def idea_added_def
        idea_record_def)
  have f: "feedback_of (state_of (render_feedback_panel p True now s)) =
        feedback_of s @ [[(''text'', strip p), (''ts'', isoformat_seconds now)]]"
    if "strip p \<noteq> []"
    using that
    by (simp add: render_feedback_panel_wf [OF assms(2)] state_of_def feedback_of_def
        feedback_added_def feedback_record_def)
  from c i f show ?thesis by blast
qed

theorem chat_stores_prompt_verbatim_witness:
  "ascii '' hi '' \<noteq> [] \<and> wf_state fresh \<and> strip (ascii '' hi '') \<noteq> [] \<and>
   strip (ascii '' hi '') \<noteq> ascii '' hi '' \<and>
   chat_of (state_of (render_chat None (Some (ascii '' hi '')) fresh)) =
     [[(''role'', ascii ''user''), (''content'', ascii '' hi '')],
      [(''role'', ascii ''assistant''), (''content'', fake_answer (ascii '' hi '') None)]] \<and>
   ideas_of (state_of (render_idea_panel None (ascii '' hi '') True noon fresh)) =
     [[(''text'', ascii ''hi''), (''ref'', NO_REF), (''ts'', ascii ''2024-03-09T12:00:07'')]] \<and>
   feedback_of (state_of (render_feedback_panel (ascii '' hi '') True noon fresh)) =
     [[(''text'', ascii ''hi''), (''ts'', ascii ''2024-03-09T12:00:07'')]]"
proof -
  have h1: "ascii '' hi '' \<noteq> []"
    by (simp add: ascii_def)
  have h2: "strip (ascii '' hi '') \<noteq> []" "strip (ascii '' hi '') \<noteq> ascii '' hi ''"
    unfolding strip_hi by (simp_all add: ascii_def)
  have e: "chat_of fresh = []" "ideas_of fresh = []" "feedback_of fresh = []"
    by (simp_all add: fresh_def chat_of_def ideas_of_def feedback_of_def)
  show ?thesis
    using h1 h2 wf_state_fresh e chat_stores_prompt_verbatim [OF h1 wf_state_fresh, of None noon]
    by (simp add: strip_hi isoformat_seconds_noon)
qed

text \<open>
  Claim C3. In a session that starts with no history, after any sequence of runs of the
  script the chat history is the concatenation, in order, of the turns of the accepted
  prompts: the user message, then the generated answer. So after N accepted submissions
  it has exactly 2N entries whose roles alternate user, assistant; the history after
  any number of these runs is a prefix of the history after all of them, so no entry is
  removed, reordered or modified, whatever the other runs do; and no run raises.
\<close>

theorem chat_history_append_only:
  "chat_of (run_session inps empty_session) =
     concat (map (\<lambda>i. chat_added (in_ref i) (in_prompt i)) inps) \<and>
   length (chat_of (run_session inps empty_session)) =
     2 * length (filter (\<lambda>i. truthy (in_prompt i)) inps) \<and>
   map (\<lambda>m. map_of m ''role'') (chat_of (run_session inps empty_session)) =
     concat (replicate (length (filter (\<lambda>i. truthy (in_prompt i)) inps))
       [Some (ascii ''user''), Some (ascii ''assistant'')]) \<and>
   (\<forall>k. prefix (chat_of (run_session (take k inps) empty_session))
          (chat_of (run_session inps empty_session))) \<and>
   (\<forall>k<length inps. fst (main (inps ! k) (run_session (take k inps) empty_session)) = Done)"
proof -
  let ?f = "\<lambda>i. chat_added (in_ref i) (in_prompt i)"
  have c: "chat_of (run_session xs empty_session) = concat (map ?f xs)" for xs
    using run_session_chat [OF wf_state_init_empty, of xs] by (simp add: chat_of_empty_session)
  have p: "prefix (chat_of (run_session (take k inps) empty_session))
      (chat_of (run_session inps empty_session))" for k
  proof -
    have "concat (map ?f inps) = concat (map ?f (take k inps)) @ concat (map ?f (drop k inps))"
      by (metis append_take_drop_id concat_append map_append)
    then show ?thesis
      unfolding c by (rule prefixI)
  qed
  have d: "\<forall>k<length inps. fst (main (inps ! k) (run_session (take k inps) empty_session)) = Done"
    using run_session_Done [OF wf_state_init_empty] by blast
  show ?thesis
    using p d by (simp add: c length_chat_added roles_chat_added)
qed

theorem chat_history_append_only_witness:
  "length (chat_of (run_session
     [chat_run (Some (ascii ''Halliday'')) (Some (ascii ''F = ma?'')), chat_run None None,
      chat_run None (Some (ascii ''why?''))] empty_session)) = 4 \<and>
   map (\<lambda>m. map_of m ''role'') (chat_of (run_session
     [chat_run (Some (ascii ''Halliday'')) (Some (ascii ''F = ma?'')), chat_run None None,
      chat_run None (Some (ascii ''why?''))] empty_session)) =
     [Some (ascii ''user''), Some (ascii ''assistant''),
      Some (ascii ''user''), Some (ascii ''assistant'')] \<and>
   chat_of (run_session
     [chat_run (Some (ascii ''Halliday'')) (Some (ascii ''F = ma?'')), chat_run None None,
      chat_run None (Some (ascii ''why?''))] empty_session) =
     chat_turn (Some (ascii ''Halliday'')) (ascii ''F = ma?'') @ chat_turn None (ascii ''why?'') \<and>
   (1::nat) < length [chat_run (Some (ascii ''Halliday'')) (Some (ascii ''F = ma?'')),
      chat_run None None, chat_run None (Some (ascii ''why?''))] \<and>
   fst (main (chat_run None None)
     (run_session [chat_run (Some (ascii ''Halliday'')) (Some (ascii ''F = ma?''))]
        empty_session)) = Done"
proof -
  let ?inps = "[chat_run (Some (ascii ''Halliday'')) (Some (ascii ''F = ma?'')),
      chat_run None None, chat_run None (Some (ascii ''why?''))]"
  have q: "ascii ''F = ma?'' \<noteq> []" "ascii ''why?'' \<noteq> []"
    by (simp_all add: ascii_def)
  have k: "(1::nat) < length ?inps"
    by simp
  from chat_history_append_only [of ?inps]
  have a: "chat_of (run_session ?inps empty_session) =
      concat (map (\<lambda>i. chat_added (in_ref i) (in_prompt i)) ?inps)"
    and b: "length (chat_of (run_session ?inps empty_session)) =
      2 * length (filter (\<lambda>i. truthy (in_prompt i)) ?inps)"
    and c: "map (\<lambda>m. map_of m ''role'') (chat_of (run_session ?inps empty_session)) =
      concat (replicate (length (filter (\<lambda>i. truthy (in_prompt i)) ?inps))
        [Some (ascii ''user''), Some (ascii ''assistant'')])"
    and d: "\<forall>k<length ?inps. fst (main (?inps ! k) (run_session (take k ?inps) empty_session)) = Done"
    by blast+
  from d k have e: "fst (main (?inps ! 1) (run_session (take 1 ?inps) empty_session)) = Done"
    by blast
  show ?thesis
    using a b c e q by (simp add: chat_run_def)
qed

text \<open>
  Claim C9. Every idea record of a session has a reference field that is there and is a
  non-empty string, so that the list's \<open>item.get("ref", ...)\<close> finds the stored value
  and never falls back. In any state and for any selection, what the idea panel appends
  is the one record whose reference is the selected name, or the marker \<open>NO_REF\<close>
  when nothing (or an empty name) is selected; the marker is the literal of line 77,
  given here by its code points.
\<close>

theorem idea_ref_never_missing:
  "(\<forall>e\<in>set (ideas_of (run_session inps empty_session)).
      \<exists>v. map_of e ''ref'' = Some v \<and> v \<noteq> [] \<and> dict_get e ''ref'' NO_REF = v) \<and>
   ideas_of (state_of (render_idea_panel r idea clicked now s)) =
     ideas_of s @
     (if clicked \<and> strip idea \<noteq> [] \<and> ideas s \<noteq> None
      then [[(''text'', strip idea), (''ref'', or_else r NO_REF), (''ts'', isoformat_seconds now)]]
      else []) \<and>
   or_else r NO_REF \<noteq> [] \<and>
   or_else None NO_REF = NO_REF \<and>
   NO_REF = [52280, 44256, 32, 44368, 51116, 32, 50630, 51020]"
proof -
  have "\<exists>v. map_of e ''ref'' = Some v \<and> v \<noteq> [] \<and> dict_get e ''ref'' NO_REF = v"
    if "e \<in> set (ideas_of (run_session inps empty_session))" for e
  proof -
    from that obtain i where "i \<in> set inps"
      and "e \<in> set (idea_added (in_ref i) (in_idea i) (in_idea_clicked i) (in_idea_now i))"
      by (auto simp: run_session_ideas [OF wf_state_init_empty] ideas_of_empty_session)
    then show ?thesis
      using idea_added_ref or_else_nonempty [OF NO_REF_nonempty] by blast
  qed
  then show ?thesis
    by (simp add: render_idea_panel_state idea_submit_ideas idea_record_def
        or_else_nonempty [OF NO_REF_nonempty])
       (simp add: NO_REF_def)
qed

theorem idea_ref_never_missing_witness:
  "ideas_of (run_session [idea_run None (ascii ''more demos'')] empty_session) =
     [[(''text'', ascii ''more demos''), (''ref'', NO_REF),
       (''ts'', ascii ''2024-03-09T12:00:07'')]] \<and>
   [(''text'', ascii ''more demos''), (''ref'', NO_REF), (''ts'', ascii ''2024-03-09T12:00:07'')]
     \<in> set (ideas_of (run_session [idea_run None (ascii ''more demos'')] empty_session)) \<and>
   (\<exists>v. map_of [(''text'', ascii ''more demos''), (''ref'', NO_REF),
                 (''ts'', ascii ''2024-03-09T12:00:07'')] ''ref'' = Some v \<and> v \<noteq> [])"
proof -
  let ?e = "[(''text'', ascii ''more demos''), (''ref'', NO_REF),
      (''ts'', ascii ''2024-03-09T12:00:07'')]"
  have s: "strip (ascii ''more demos'') = ascii ''more demos''"
    by (simp add: strip_def lstrip_def rstrip_def isspace_def ascii_def)
  have n: "ascii ''more demos'' \<noteq> []"
    by (simp add: ascii_def)
  have i: "ideas_of (run_session [idea_run None (ascii ''more demos'')] empty_session) = [?e]"
    unfolding run_session_ideas [OF wf_state_init_empty] ideas_of_empty_session
    using n by (simp add: idea_run_def idea_added_def idea_record_def s isoformat_seconds_noon)
  then have m: "?e \<in> set (ideas_of (run_session [idea_run None (ascii ''more demos'')] empty_session))"
    by simp
  from idea_ref_never_missing [of "[idea_run None (ascii ''more demos'')]"] m
  have "\<exists>v. map_of ?e ''ref'' = Some v \<and> v \<noteq> [] \<and> dict_get ?e ''ref'' NO_REF = v"
    by blast
  then have "\<exists>v. map_of ?e ''ref'' = Some v \<and> v \<noteq> []"
    by blast
  with i m show ?thesis
    by blast
qed

text \<open>
  Claim C6. In every state in which the panels can run, the list of ideas and the list
  of feedback are shown in reverse order of submission: below the heading, the entry at
  position k is the record k places from the end of the sequence, the last submitted
  first, and an empty sequence shows nothing. Each panel shows the list of the state it
  leaves, so a record submitted in the same run comes first.
\<close>

theorem lists_render_most_recent_first:
  assumes "wf_state s"
  shows "fst (idea_list s) = Done \<and>
    shown (idea_list s) =
      (if ideas_of s = [] then [] else Markdown IDEA_HEADING # map idea_entry (rev (ideas_of s))) \<and>
    (\<forall>k<length (ideas_of s).
       shown (idea_list s) ! Suc k = idea_entry (ideas_of s ! (length (ideas_of s) - 1 - k))) \<and>
    fst (feedback_list s) = Done \<and>
    shown (feedback_list s) =
      (if feedback_of s = [] then []
       else Markdown FEEDBACK_HEADING # map feedback_entry (rev (feedback_of s))) \<and>
    (\<forall>k<length (feedback_of s).
       shown (feedback_list s) ! Suc k =
         feedback_entry (feedback_of s ! (length (feedback_of s) - 1 - k))) \<and>
    shown (render_idea_panel r idea clicked now s) =
      Subheader IDEA_SUBHEADER # shown (idea_submit r idea clicked now s) @
      shown (idea_list (state_of (render_idea_panel r idea clicked now s))) \<and>
    shown (render_feedback_panel fb clicked' now' s) =
      Html DIVIDER_HTML # Subheader FEEDBACK_SUBHEADER # shown (feedback_submit fb clicked' now' s) @
      shown (feedback_list (state_of (render_feedback_panel fb clicked' now' s)))"
proof -
  have i: "\<forall>k<length (ideas_of s).
       shown (idea_list s) ! Suc k = idea_entry (ideas_of s ! (length (ideas_of s) - 1 - k))"
    by (auto simp: idea_list_wf [OF assms] shown_def rev_nth)
  have f: "\<forall>k<length (feedback_of s).
       shown (feedback_list s) ! Suc k =
         feedback_entry (feedback_of s ! (length (feedback_of s) - 1 - k))"
    by (auto simp: feedback_list_wf [OF assms] shown_def rev_nth)
  let ?si = "s\<lparr>ideas := Some (ideas_of s @ idea_added r idea clicked now)\<rparr>"
  have wfi: "wf_state ?si"
    using assms wf_idea_added by (rule wf_state_ideas_update)
  have oi: "ideas_of ?si = ideas_of s @ idea_added r idea clicked now"
    by (simp add: ideas_of_def)
  have pi: "shown (render_idea_panel r idea clicked now s) =
      Subheader IDEA_SUBHEADER # shown (idea_submit r idea clicked now s) @
      shown (idea_list (state_of (render_idea_panel r idea clicked now s)))"
    by (simp add: render_idea_panel_wf [OF assms] idea_submit_wf [OF assms] state_of_def
        shown_def idea_list_wf [OF wfi] oi)
  let ?sf = "s\<lparr>feedback := Some (feedback_of s @ feedback_added fb clicked' now')\<rparr>"
  have wff: "wf_state ?sf"
    using assms wf_feedback_added by (rule wf_state_feedback_update)
  have off: "feedback_of ?sf = feedback_of s @ feedback_added fb clicked' now'"
    by (simp add: feedback_of_def)
  have pf: "shown (render_feedback_panel fb clicked' now' s) =
      Html DIVIDER_HTML # Subheader FEEDBACK_SUBHEADER # shown (feedback_submit fb clicked' now' s) @
      shown (feedback_list (state_of (render_feedback_panel fb clicked' now' s)))"
    by (simp add: render_feedback_panel_wf [OF assms] feedback_submit_wf [OF assms] state_of_def
        shown_def feedback_list_wf [OF wff] off)
  show ?thesis
    using i f pi pf
    by (simp add: idea_list_wf [OF assms] feedback_list_wf [OF assms] shown_def)
qed

theorem lists_render_most_recent_first_witness:
  "wf_state busy \<and> (0::nat) < length (ideas_of busy @ [idea_record None (ascii ''quiz 2'') noon]) \<and>
   state_of (render_idea_panel None (ascii ''quiz 2'') True noon busy) =
     busy\<lparr>ideas := Some (ideas_of busy @ [idea_record None (ascii ''quiz 2'') noon])\<rparr> \<and>
   wf_state (state_of (render_idea_panel None (ascii ''quiz 2'') True noon busy)) \<and>
   shown (idea_list (state_of (render_idea_panel None (ascii ''quiz 2'') True noon busy))) =
     [Markdown IDEA_HEADING, idea_entry (idea_record None (ascii ''quiz 2'') noon),
      idea_entry [(''text'', ascii ''quiz''), (''ref'', ascii ''Serway''),
                  (''ts'', ascii ''2024-03-09T11:00:00'')]] \<and>
   shown (idea_list (state_of (render_idea_panel None (ascii ''quiz 2'') True noon busy))) ! Suc 0 =
     idea_entry (idea_record None (ascii ''quiz 2'') noon)"
proof -
  let ?new = "idea_record None (ascii ''quiz 2'') noon"
  let ?s' = "busy\<lparr>ideas := Some (ideas_of busy @ [?new])\<rparr>"
  have q: "strip (ascii ''quiz 2'') \<noteq> []"
    by (simp add: strip_def lstrip_def rstrip_def isspace_def ascii_def)
  have a: "idea_added None (ascii ''quiz 2'') True noon = [?new]"
    using q by (simp add: idea_added_def)
  have st: "state_of (render_idea_panel None (ascii ''quiz 2'') True noon busy) = ?s'"
    by (simp add: render_idea_panel_wf [OF wf_state_busy] state_of_def a)
  have wf': "wf_state ?s'"
    using wf_state_ideas_update [OF wf_state_busy wf_idea_added, of None "ascii ''quiz 2''" True noon]
    by (simp only: a)
  have xs: "ideas_of ?s' =
      [[(''text'', ascii ''quiz''), (''ref'', ascii ''Serway''),
        (''ts'', ascii ''2024-03-09T11:00:00'')], ?new]"
    by (simp add: ideas_of_def busy_def)
  have k: "(0::nat) < length (ideas_of busy @ [?new])"
    by simp
  from lists_render_most_recent_first [OF wf']
  have l: "shown (idea_list ?s') =
      (if ideas_of ?s' = [] then [] else Markdown IDEA_HEADING # map idea_entry (rev (ideas_of ?s')))"
    and n: "\<forall>k<length (ideas_of ?s').
       shown (idea_list ?s') ! Suc k = idea_entry (ideas_of ?s' ! (length (ideas_of ?s') - 1 - k))"
    by blast+
  from n have "shown (idea_list ?s') ! Suc 0 = idea_entry (ideas_of ?s' ! (length (ideas_of ?s') - 1 - 0))"
    unfolding xs by simp
  then have n0: "shown (idea_list ?s') ! Suc 0 = idea_entry ?new"
    unfolding xs by simp
  from l have l0: "shown (idea_list ?s') = [Markdown IDEA_HEADING, idea_entry ?new,
      idea_entry [(''text'', ascii ''quiz''), (''ref'', ascii ''Serway''),
                  (''ts'', ascii ''2024-03-09T11:00:00'')]]"
    unfolding xs by simp
  show ?thesis
    unfolding st using wf_state_busy k wf' l0 n0 by blast
qed


end
